theory Spec2Isabelle
  imports Main "HOL-Library.Multiset" "HOL-Library.AList"
begin

section \<open>Data model\<close>

text \<open>
  The guest form (\<^verbatim>\<open>src/app/rsvp/[token]/page.tsx\<close>) and the administrator dashboard
  (\<^verbatim>\<open>src/unnamed/part_002\<close>) declare the same row types. A TypeScript
  \<^verbatim>\<open>boolean | null\<close> is a \<open>bool option\<close> (\<open>None\<close> is \<^verbatim>\<open>null\<close>, the unanswered state), a
  \<^verbatim>\<open>string | null\<close> a \<open>string option\<close>, and \<^verbatim>\<open>number | null\<close> an \<open>int option\<close>: the
  head count is an integer column of the store, and the integer is the value of the double
  that holds it on the page. A string is a list of code units; the accented letter of the
  French default names is the single unit \<open>0xE9\<close>.
\<close>

record Invite =
  id :: int
  nom :: "string option"
  mairie :: "bool option"
  cocktail :: "bool option"
  chateau :: "bool option"
  brunch :: "bool option"
  fk_invitation :: string
  autorisation_ia :: "bool option"

record Invitation =
  id :: string
  nom :: "string option"
  type :: "string option"
  regime :: "string option"
  allergie :: "string option"
  hebergement :: "bool option"
  herbergement_nombre :: "int option"
  link_music :: "string option"
  confirmed_at :: "string option"

text \<open>The dashboard's \<^verbatim>\<open>InvitationData\<close>: an invitation with its link and its guests.\<close>

record InvitationData = Invitation +
  url :: "string option"
  invites :: "Invite list"

section \<open>JavaScript operators used by the code\<close>

text \<open>\<^verbatim>\<open>s || d\<close> on a \<^verbatim>\<open>string | null\<close>: \<^verbatim>\<open>null\<close> and the empty string are falsy.\<close>

definition strOr :: "string option \<Rightarrow> string \<Rightarrow> string" where
  "strOr s d = (case s of None \<Rightarrow> d | Some v \<Rightarrow> if v = [] then d else v)"

text \<open>\<^verbatim>\<open>n || 0\<close> on a \<^verbatim>\<open>number | null\<close>: \<^verbatim>\<open>null\<close> and \<^verbatim>\<open>0\<close> are falsy.\<close>

definition numOr0 :: "int option \<Rightarrow> int" where
  "numOr0 n = (case n of None \<Rightarrow> 0 | Some v \<Rightarrow> if v = 0 then 0 else v)"

text \<open>\<^verbatim>\<open>!n\<close> on a \<^verbatim>\<open>number | null\<close>.\<close>

definition numFalsy :: "int option \<Rightarrow> bool" where
  "numFalsy n = (case n of None \<Rightarrow> True | Some v \<Rightarrow> v = 0)"

subsection \<open>Numbers\<close>

text \<open>
  A JavaScript \<^verbatim>\<open>number\<close> is an IEEE 754 double. The head count is an integer column of the
  store, so every number the dashboard adds has an integer value: \<open>Number n\<close> is the double
  of value \<open>n\<close>, and the sum of two of them is the exact integer sum rounded to the nearest
  double, ties to even, or an infinity beyond the largest double. Integers of magnitude up
  to \<open>2^53\<close> are doubles; a larger one is a double when it fits 53 significant bits. The
  sign of a zero is not kept: no code here tells \<^verbatim>\<open>-0\<close> from \<^verbatim>\<open>0\<close>.
\<close>

datatype number = Number int | PosInfinity | NegInfinity | NaN

text \<open>The number of binary digits of a positive integer.\<close>

function bitLength :: "int \<Rightarrow> nat" where
  "bitLength n = (if n \<le> 0 then 0 else Suc (bitLength (n div 2)))"
  by pat_completeness auto
termination
  by (relation "measure nat") auto

declare bitLength.simps [simp del]

text \<open>
  Rounding an integer to a double: with \<open>e\<close> the number of digits beyond 53, the magnitude
  is \<open>q * 2^e + r\<close>; \<open>q\<close> goes up when \<open>r\<close> is above half of \<open>2^e\<close>, or is the half and
  \<open>q\<close> is odd. The largest double is \<open>(2^53 - 1) * 2^971\<close>.
\<close>

definition roundDouble :: "int \<Rightarrow> number" where
  "roundDouble x =
     (let m = \<bar>x\<bar> in
      if m \<le> 2 ^ 53 then Number x
      else (let e = bitLength m - 53;
                q = m div 2 ^ e;
                r = m mod 2 ^ e;
                q' = (if 2 * r > 2 ^ e \<or> (2 * r = 2 ^ e \<and> odd q) then q + 1 else q);
                y = q' * 2 ^ e
            in if y \<ge> 2 ^ 1024 then (if x < 0 then NegInfinity else PosInfinity)
               else Number (if x < 0 then - y else y)))"

text \<open>\<^verbatim>\<open>a + b\<close> on numbers.\<close>

fun numAdd :: "number \<Rightarrow> number \<Rightarrow> number" where
  "numAdd (Number a) (Number b) = roundDouble (a + b)"
| "numAdd NaN b = NaN"
| "numAdd a NaN = NaN"
| "numAdd PosInfinity NegInfinity = NaN"
| "numAdd NegInfinity PosInfinity = NaN"
| "numAdd PosInfinity b = PosInfinity"
| "numAdd a PosInfinity = PosInfinity"
| "numAdd NegInfinity b = NegInfinity"
| "numAdd a NegInfinity = NegInfinity"

definition linvite :: string where
  "linvite = ''l'' @ [CHR 0x27] @ ''invit'' @ [CHR 0xE9]"

section \<open>The guest form's validation: \<^verbatim>\<open>validateForm\<close>\<close>

text \<open>
  \<^verbatim>\<open>validateForm\<close> shows one alert and returns \<^verbatim>\<open>false\<close> at the first check that fails, and
  returns \<^verbatim>\<open>true\<close> when none does. The alert is the error value; it carries the name the
  message is built with (\<^verbatim>\<open>invite.nom || "l'invit\<close>\<open>\<dots>\<close>\<^verbatim>\<open>"\<close>).
\<close>

datatype alert =
    AlertMairie string
  | AlertCocktail string
  | AlertChateau string
  | AlertIA string
  | AlertHebergement
  | AlertHebergementNombre

text \<open>The first loop: town hall, then cocktail, guest by guest.\<close>

fun checkSamedi01 :: "Invite list \<Rightarrow> alert option" where
  "checkSamedi01 [] = None"
| "checkSamedi01 (g # gs) =
     (if Invite.mairie g = None then Some (AlertMairie (strOr (Invite.nom g) linvite))
      else if cocktail g = None then Some (AlertCocktail (strOr (Invite.nom g) linvite))
      else checkSamedi01 gs)"

text \<open>The second loop: the weekend at the chateau. It runs for every invitation type.\<close>

fun checkWeekend :: "Invite list \<Rightarrow> alert option" where
  "checkWeekend [] = None"
| "checkWeekend (g # gs) =
     (if Invite.chateau g = None then Some (AlertChateau (strOr (Invite.nom g) linvite))
      else checkWeekend gs)"

text \<open>The third loop: the consent question.\<close>

fun checkIA :: "Invite list \<Rightarrow> alert option" where
  "checkIA [] = None"
| "checkIA (g # gs) =
     (if autorisation_ia g = None then Some (AlertIA (strOr (Invite.nom g) linvite))
      else checkIA gs)"

text \<open>
  The component's state holds \<^verbatim>\<open>Invitation | null\<close>, hence the \<open>option\<close>:
  \<^verbatim>\<open>invitation && \<dots>\<close> and \<^verbatim>\<open>invitation?.hebergement\<close> are false on \<^verbatim>\<open>null\<close>.
\<close>

definition isMailleInvited :: "Invitation option \<Rightarrow> bool" where
  "isMailleInvited invitation =
     (case invitation of None \<Rightarrow> False
      | Some i \<Rightarrow> type i = Some ''full'' \<or> type i = Some ''partial-mairie'')"

definition validateForm :: "Invitation option \<Rightarrow> Invite list \<Rightarrow> alert + unit" where
  "validateForm invitation guests =
     (case (if isMailleInvited invitation then checkSamedi01 guests else None) of
        Some a \<Rightarrow> Inl a
      | None \<Rightarrow>
     (case checkWeekend guests of
        Some a \<Rightarrow> Inl a
      | None \<Rightarrow>
     (case checkIA guests of
        Some a \<Rightarrow> Inl a
      | None \<Rightarrow>
     (if (case invitation of None \<Rightarrow> False | Some i \<Rightarrow> hebergement i = None)
      then Inl AlertHebergement
      else if (case invitation of None \<Rightarrow> False
               | Some i \<Rightarrow> hebergement i = Some True \<and>
                   (numFalsy (herbergement_nombre i) \<or>
                    (case herbergement_nombre i of None \<Rightarrow> False | Some n \<Rightarrow> n \<le> 0)))
      then Inl AlertHebergementNombre
      else Inr ()))))"

section \<open>The dashboard's aggregation: \<^verbatim>\<open>calculateStats\<close>\<close>

record counter =
  accepted :: nat
  refused :: nat
  total :: nat

record regimeEntry =
  count :: nat
  invitations :: "string list"

text \<open>
  \<^verbatim>\<open>stats.regimes\<close> is a plain JavaScript object used as a dictionary. Its own properties
  are an association list, kept in the order of their creation. That is the state of the
  object, not the order of an enumeration: \<^verbatim>\<open>Object.entries\<close>, which the page calls on the
  result and \<^verbatim>\<open>calculateStats\<close> does not, lists the integer-like keys first, in
  ascending order. A property read that finds no own property falls through to
  \<^verbatim>\<open>Object.prototype\<close>, whose members are all truthy.
\<close>

record stats =
  complete :: counter
  mairie :: counter
  chateau :: counter
  accommodation :: number
  regimes :: "(string \<times> regimeEntry) list"

definition stats0 :: stats where
  "stats0 = \<lparr> complete = \<lparr> accepted = 0, refused = 0, total = 0 \<rparr>,
              mairie = \<lparr> accepted = 0, refused = 0, total = 0 \<rparr>,
              chateau = \<lparr> accepted = 0, refused = 0, total = 0 \<rparr>,
              accommodation = Number 0,
              regimes = [] \<rparr>"

text \<open>The three counter updates of one category: total, then accepted, then refused.\<close>

definition bump :: "bool option \<Rightarrow> counter \<Rightarrow> counter" where
  "bump answer c =
     (let c1 = c\<lparr> total := total c + 1 \<rparr>;
          c2 = (if answer = Some True then c1\<lparr> accepted := accepted c1 + 1 \<rparr> else c1)
      in (if answer = Some False then c2\<lparr> refused := refused c2 + 1 \<rparr> else c2))"

text \<open>The body of the inner \<^verbatim>\<open>forEach\<close>: one guest of an invitation of type \<open>ty\<close>.\<close>

definition countInvite :: "string option \<Rightarrow> stats \<Rightarrow> Invite \<Rightarrow> stats" where
  "countInvite ty s g =
     (let s1 = (if ty = Some ''full''
                then s\<lparr> complete := bump (Invite.chateau g) (complete s) \<rparr> else s);
          s2 = (if ty = Some ''full'' \<or> ty = Some ''partial-mairie''
                then s1\<lparr> stats.mairie := bump (Invite.mairie g) (stats.mairie s1) \<rparr> else s1)
      in (if ty = Some ''full'' \<or> ty = Some ''partial-chateau''
          then s2\<lparr> stats.chateau := bump (Invite.chateau g) (stats.chateau s2) \<rparr> else s2))"

text \<open>\<^verbatim>\<open>stats.accommodation += inv.herbergement_nombre || 0\<close>, an addition of doubles.\<close>

definition countAccommodation :: "stats \<Rightarrow> InvitationData \<Rightarrow> stats" where
  "countAccommodation s i =
     (if hebergement i = Some True
      then s\<lparr> accommodation :=
             numAdd (accommodation s) (Number (numOr0 (herbergement_nombre i))) \<rparr>
      else s)"

text \<open>\<^verbatim>\<open>String.prototype.trim\<close> on code units below 256.\<close>

definition isWhiteSpace :: "char \<Rightarrow> bool" where
  "isWhiteSpace c = (c \<in> set [CHR 0x09, CHR 0x0A, CHR 0x0B, CHR 0x0C, CHR 0x0D, CHR 0x20, CHR 0xA0])"

definition trim :: "string \<Rightarrow> string" where
  "trim s = rev (dropWhile isWhiteSpace (rev (dropWhile isWhiteSpace s)))"

text \<open>
  The property names every object inherits from \<^verbatim>\<open>Object.prototype\<close>. A read of
  \<^verbatim>\<open>stats.regimes[k]\<close> for such a \<open>k\<close> yields the inherited function (or, for
  \<^verbatim>\<open>__proto__\<close>, the prototype object), which is truthy and has no \<^verbatim>\<open>invitations\<close>.
\<close>

definition objectPrototypeKeys :: "string list" where
  "objectPrototypeKeys =
     [''constructor'', ''__defineGetter__'', ''__defineSetter__'', ''hasOwnProperty'',
      ''__lookupGetter__'', ''__lookupSetter__'', ''isPrototypeOf'', ''propertyIsEnumerable'',
      ''toString'', ''valueOf'', ''__proto__'', ''toLocaleString'']"

datatype error = TypeError

text \<open>
  The regime block. With an own entry the count is incremented and the name pushed. With
  none, an inherited name skips the initialisation (\<^verbatim>\<open>!stats.regimes[r]\<close> is false), and
  \<^verbatim>\<open>stats.regimes[r].invitations.push\<close> reads \<^verbatim>\<open>push\<close> of \<^verbatim>\<open>undefined\<close>: a
  \<^verbatim>\<open>TypeError\<close>. Any other name gets a fresh entry first.
\<close>

definition collectRegime :: "stats \<Rightarrow> InvitationData \<Rightarrow> error + stats" where
  "collectRegime s i =
     (case regime i of
        None \<Rightarrow> Inr s
      | Some r \<Rightarrow>
          if r = [] \<or> trim r = [] then Inr s
          else (case map_of (regimes s) r of
                  Some e \<Rightarrow>
                    Inr (s\<lparr> regimes := AList.update r
                           (e\<lparr> count := count e + 1,
                               invitations := invitations e @ [strOr (Invitation.nom i) []]\<rparr>)
                           (regimes s) \<rparr>)
                | None \<Rightarrow>
                    if r \<in> set objectPrototypeKeys then Inl TypeError
                    else Inr (s\<lparr> regimes := regimes s @
                           [(r, \<lparr> count = 1,
                                  invitations = [strOr (Invitation.nom i) []] \<rparr>)] \<rparr>)))"

text \<open>The body of the outer \<^verbatim>\<open>forEach\<close>.\<close>

definition stepInvitation :: "stats \<Rightarrow> InvitationData \<Rightarrow> error + stats" where
  "stepInvitation s i =
     collectRegime (countAccommodation (foldl (countInvite (type i)) s (invites i)) i) i"

text \<open>The outer \<^verbatim>\<open>forEach\<close>: an exception leaves the loop and the function.\<close>

fun forEachInvitation :: "stats \<Rightarrow> InvitationData list \<Rightarrow> error + stats" where
  "forEachInvitation s [] = Inr s"
| "forEachInvitation s (i # is) =
     (case stepInvitation s i of Inl e \<Rightarrow> Inl e | Inr s' \<Rightarrow> forEachInvitation s' is)"

definition calculateStats :: "InvitationData list \<Rightarrow> error + stats" where
  "calculateStats invitationList = forEachInvitation stats0 invitationList"

section \<open>The dashboard's detail queries\<close>

datatype statsType = TMairie | TChateau
datatype statsStatus = Accepted | Refused

record person =
  p_nom :: string
  invitationNom :: string

definition invite_default :: string where
  "invite_default = ''Invit'' @ [CHR 0xE9]"

definition includePerson :: "statsType \<Rightarrow> statsStatus \<Rightarrow> string option \<Rightarrow> Invite \<Rightarrow> bool" where
  "includePerson ty status ity g =
     (case ty of
        TMairie \<Rightarrow>
          if (ity = Some ''full'' \<or> ity = Some ''partial-mairie'') \<and>
             status = Accepted \<and> Invite.mairie g = Some True then True
          else if (ity = Some ''full'' \<or> ity = Some ''partial-mairie'') \<and>
             status = Refused \<and> Invite.mairie g = Some False then True
          else False
      | TChateau \<Rightarrow>
          if (ity = Some ''full'' \<or> ity = Some ''partial-chateau'') \<and>
             status = Accepted \<and> Invite.chateau g = Some True then True
          else if (ity = Some ''full'' \<or> ity = Some ''partial-chateau'') \<and>
             status = Refused \<and> Invite.chateau g = Some False then True
          else False)"

definition pushPerson ::
  "statsType \<Rightarrow> statsStatus \<Rightarrow> InvitationData \<Rightarrow> person list \<Rightarrow> Invite \<Rightarrow> person list" where
  "pushPerson ty status i people g =
     (if includePerson ty status (type i) g
      then people @ [\<lparr> p_nom = strOr (Invite.nom g) invite_default,
                       invitationNom = strOr (Invitation.nom i) ''Invitation'' \<rparr>]
      else people)"

definition getStatsDetails ::
  "InvitationData list \<Rightarrow> statsType \<Rightarrow> statsStatus \<Rightarrow> person list" where
  "getStatsDetails invitationList ty status =
     foldl (\<lambda>people i. foldl (pushPerson ty status i) people (invites i)) [] invitationList"

record accommodationRow =
  a_nom :: string
  nombre :: int

definition pushAccommodation :: "accommodationRow list \<Rightarrow> InvitationData \<Rightarrow> accommodationRow list" where
  "pushAccommodation acc i =
     (if hebergement i = Some True
      then acc @ [\<lparr> a_nom = strOr (Invitation.nom i) ''Invitation'',
                    nombre = numOr0 (herbergement_nombre i) \<rparr>]
      else acc)"

definition getAccommodationDetails :: "InvitationData list \<Rightarrow> accommodationRow list" where
  "getAccommodationDetails invitationList = foldl pushAccommodation [] invitationList"

section \<open>The submission endpoint: \<^verbatim>\<open>POST\<close> of \<^verbatim>\<open>src/app/api/rsvp/route.ts\<close>\<close>

text \<open>
  What \<^verbatim>\<open>await req.json()\<close> yields is any JSON value: the annotation \<^verbatim>\<open>RSVPBody\<close> is not
  checked when the handler runs. An object is its list of members as the text has them; of
  two members of one name \<^verbatim>\<open>JSON.parse\<close> keeps the later. A number is kept as its
  literal: the handler computes with none.
\<close>

datatype json =
    JNull
  | JBool bool
  | JNumber string
  | JString string
  | JArray "json list"
  | JObject "(string \<times> json) list"

text \<open>A request: its body is JSON text or is not.\<close>

datatype request = NotJson | Json json

text \<open>
  \<^verbatim>\<open>body.k\<close> for a body that is not \<^verbatim>\<open>null\<close>, \<open>None\<close> being \<^verbatim>\<open>undefined\<close>. The handler
  reads eight names; none of them is inherited by an object, an array or a primitive.
\<close>

fun member :: "json \<Rightarrow> string \<Rightarrow> json option" where
  "member (JObject ms) k = map_of (rev ms) k"
| "member b k = None"

text \<open>
  The object handed to \<^verbatim>\<open>.update\<close>: the body's seven answer fields as they are, and
  \<^verbatim>\<open>confirmed_at\<close>, which is always set. An \<^verbatim>\<open>undefined\<close> field is left out of what is
  sent; a \<^verbatim>\<open>null\<close> one is sent.
\<close>

record updateValues =
  mairie :: "json option"
  cocktail :: "json option"
  chateau :: "json option"
  regime :: "json option"
  allergie :: "json option"
  hebergement :: "json option"
  brunch :: "json option"
  confirmed_at :: string

datatype responseBody = ErrorBody string | OkBody bool

record response =
  status :: nat
  body :: responseBody

text \<open>The object literal of the handler, \<open>now\<close> being \<^verbatim>\<open>new Date().toISOString()\<close>.\<close>

definition valuesOf :: "json \<Rightarrow> string \<Rightarrow> updateValues" where
  "valuesOf b now =
     \<lparr> updateValues.mairie = member b ''mairie'',
       cocktail = member b ''cocktail'',
       chateau = member b ''chateau'',
       regime = member b ''regime'',
       allergie = member b ''allergie'',
       hebergement = member b ''hebergement'',
       brunch = member b ''brunch'',
       confirmed_at = now \<rparr>"

text \<open>
  What the handler throws, having caught nothing: the \<^verbatim>\<open>SyntaxError\<close> of \<^verbatim>\<open>req.json()\<close> on
  a body that is not JSON, and a \<^verbatim>\<open>TypeError\<close>, either of \<^verbatim>\<open>body.token\<close> on \<^verbatim>\<open>null\<close> or of
  the digest's \<^verbatim>\<open>update\<close>, which takes a string (a buffer cannot come out of JSON).
\<close>

datatype thrown = SyntaxError | BodyTypeError

text \<open>
  The handler's collaborators are parameters: the digest \<open>sha256hex\<close>, the clock's reading
  \<open>now\<close>, and the store's \<^verbatim>\<open>from("invites").update(values).eq("token_hash", h)\<close>, which
  maps a store to the message of its \<^verbatim>\<open>error\<close> (or \<open>None\<close> for \<^verbatim>\<open>null\<close>) and the store
  afterwards. The handler calls it once, after the digest, and not at all when it has
  thrown. \<^verbatim>\<open>Response.json\<close> without an init answers with status 200.
\<close>

definition POST ::
  "(string \<Rightarrow> string) \<Rightarrow> string \<Rightarrow> (updateValues \<Rightarrow> string \<Rightarrow> 'db \<Rightarrow> string option \<times> 'db) \<Rightarrow>
   request \<Rightarrow> 'db \<Rightarrow> (thrown + response) \<times> 'db" where
  "POST sha256hex now update req db =
     (case req of
        NotJson \<Rightarrow> (Inl SyntaxError, db)
      | Json b \<Rightarrow>
          if b = JNull then (Inl BodyTypeError, db)
          else (case member b ''token'' of
                  Some (JString t) \<Rightarrow>
                    (let tokenHash = sha256hex t;
                         r = update (valuesOf b now) tokenHash db
                     in (case fst r of
                           Some message \<Rightarrow>
                             (Inr \<lparr> status = 500, body = ErrorBody message \<rparr>, snd r)
                         | None \<Rightarrow> (Inr \<lparr> status = 200, body = OkBody True \<rparr>, snd r)))
                | _ \<Rightarrow> (Inl BodyTypeError, db)))"

subsection \<open>The record store\<close>

text \<open>The rows the endpoint updates: \<^verbatim>\<open>Invite\<close> of \<^verbatim>\<open>src/types/invite.ts\<close>.\<close>

datatype InviteType = Full | PartialMairie | PartialChateau

record InviteRow =
  id :: string
  nom :: "string list"
  type :: InviteType
  token_hash :: string
  mairie :: "bool option"
  cocktail :: "bool option"
  chateau :: "bool option"
  regime :: "string option"
  allergie :: "string option"
  hebergement :: "bool option"
  brunch :: "bool option"
  confirmed_at :: "string option"

text \<open>
  Modelled from the spec: the hosted record store, which is no code of this repository
  (section 6: the endpoint "locates the invitation by token_hash, and overwrites the
  supplied fields plus sets confirmation timestamp"). A field that was not sent leaves its
  column as it is, \<^verbatim>\<open>null\<close> empties it, and a value of the column's type is written. The
  specification has no other value in a field; here such a value leaves the column as it
  is.
\<close>

definition boolColumn :: "json option \<Rightarrow> bool option \<Rightarrow> bool option" where
  "boolColumn v old =
     (case v of Some JNull \<Rightarrow> None | Some (JBool x) \<Rightarrow> Some x | _ \<Rightarrow> old)"

definition textColumn :: "json option \<Rightarrow> string option \<Rightarrow> string option" where
  "textColumn v old =
     (case v of Some JNull \<Rightarrow> None | Some (JString x) \<Rightarrow> Some x | _ \<Rightarrow> old)"

definition overwrite :: "updateValues \<Rightarrow> InviteRow \<Rightarrow> InviteRow" where
  "overwrite v r =
     r\<lparr> InviteRow.mairie := boolColumn (updateValues.mairie v) (InviteRow.mairie r),
        InviteRow.cocktail := boolColumn (updateValues.cocktail v) (InviteRow.cocktail r),
        InviteRow.chateau := boolColumn (updateValues.chateau v) (InviteRow.chateau r),
        InviteRow.regime := textColumn (updateValues.regime v) (InviteRow.regime r),
        InviteRow.allergie := textColumn (updateValues.allergie v) (InviteRow.allergie r),
        InviteRow.hebergement := boolColumn (updateValues.hebergement v) (InviteRow.hebergement r),
        InviteRow.brunch := boolColumn (updateValues.brunch v) (InviteRow.brunch r),
        InviteRow.confirmed_at := Some (updateValues.confirmed_at v) \<rparr>"

text \<open>
  Modelled from the spec: an update of the store. \<open>fault\<close> is what the store does with
  this request: \<open>Some message\<close> when it fails (the rows stay), \<open>None\<close> when it updates
  every row whose \<^verbatim>\<open>token_hash\<close> equals \<open>h\<close>, be there none, one or several.
\<close>

definition storeUpdate ::
  "string option \<Rightarrow> updateValues \<Rightarrow> string \<Rightarrow> InviteRow list \<Rightarrow> string option \<times> InviteRow list" where
  "storeUpdate fault v h rows =
     (case fault of
        Some message \<Rightarrow> (Some message, rows)
      | None \<Rightarrow> (None, map (\<lambda>r. if token_hash r = h then overwrite v r else r) rows))"

section \<open>The specification's words\<close>

subsection \<open>Required answers (specification, section 4.2)\<close>

datatype field = FMairie | FCocktail | FChateau | FConsent

fun answer :: "field \<Rightarrow> Invite \<Rightarrow> bool option" where
  "answer FMairie g = Invite.mairie g"
| "answer FCocktail g = Invite.cocktail g"
| "answer FChateau g = Invite.chateau g"
| "answer FConsent g = autorisation_ia g"

definition mairieApplies :: "string option \<Rightarrow> bool" where
  "mairieApplies ty = (ty = Some ''full'' \<or> ty = Some ''partial-mairie'')"

definition chateauApplies :: "string option \<Rightarrow> bool" where
  "chateauApplies ty = (ty = Some ''full'' \<or> ty = Some ''partial-chateau'')"

text \<open>
  The tri-state fields the table of section 4.2 requires: town hall and cocktail for
  \<^verbatim>\<open>full\<close> and \<^verbatim>\<open>partial-mairie\<close>, the chateau for \<^verbatim>\<open>full\<close> and \<^verbatim>\<open>partial-chateau\<close>, the
  consent for every type.
\<close>

definition requiredBySpec :: "string option \<Rightarrow> field list" where
  "requiredBySpec ty =
     (if mairieApplies ty then [FMairie, FCocktail] else []) @
     (if chateauApplies ty then [FChateau] else []) @ [FConsent]"

text \<open>The same table with the chateau required for every type.\<close>

definition requiredByForm :: "string option \<Rightarrow> field list" where
  "requiredByForm ty =
     (if mairieApplies ty then [FMairie, FCocktail] else []) @ [FChateau, FConsent]"

definition unanswered :: "field list \<Rightarrow> Invite list \<Rightarrow> bool" where
  "unanswered fs gs = list_ex (\<lambda>g. list_ex (\<lambda>f. answer f g = None) fs) gs"

text \<open>Accommodation accepted while the head count is absent or not positive.\<close>

definition headcountInvalid :: "Invitation \<Rightarrow> bool" where
  "headcountInvalid i =
     (Invitation.hebergement i = Some True \<and>
      (case herbergement_nombre i of None \<Rightarrow> True | Some n \<Rightarrow> n \<le> 0))"

subsection \<open>Counters (specification, section 4.3)\<close>

datatype category = Complete | CMairie | CChateau

fun applicable :: "category \<Rightarrow> string option \<Rightarrow> bool" where
  "applicable Complete ty = (ty = Some ''full'')"
| "applicable CMairie ty = (ty = Some ''full'' \<or> ty = Some ''partial-mairie'')"
| "applicable CChateau ty = (ty = Some ''full'' \<or> ty = Some ''partial-chateau'')"

fun relevant :: "category \<Rightarrow> Invite \<Rightarrow> bool option" where
  "relevant Complete g = Invite.chateau g"
| "relevant CMairie g = Invite.mairie g"
| "relevant CChateau g = Invite.chateau g"

text \<open>Every guest of the collection, with the type of its invitation.\<close>

definition guestsOf :: "InvitationData list \<Rightarrow> (string option \<times> Invite) list" where
  "guestsOf invitationList =
     concat (map (\<lambda>i. map (Pair (Invitation.type i)) (invites i)) invitationList)"

definition tally :: "category \<Rightarrow> (string option \<times> Invite) list \<Rightarrow> counter" where
  "tally c ps =
     \<lparr> accepted = length (filter (\<lambda>p. applicable c (fst p) \<and> relevant c (snd p) = Some True) ps),
       refused = length (filter (\<lambda>p. applicable c (fst p) \<and> relevant c (snd p) = Some False) ps),
       total = length (filter (\<lambda>p. applicable c (fst p)) ps) \<rparr>"

text \<open>The head counts of the invitations with accommodation accepted, absent as 0.\<close>

definition headcounts :: "InvitationData list \<Rightarrow> int list" where
  "headcounts invitationList =
     map (\<lambda>i. case herbergement_nombre i of None \<Rightarrow> 0 | Some n \<Rightarrow> n)
       (filter (\<lambda>i. Invitation.hebergement i = Some True) invitationList)"

subsection \<open>Auxiliary notions of the proofs\<close>

fun pick :: "category \<Rightarrow> stats \<Rightarrow> counter" where
  "pick Complete s = complete s"
| "pick CMairie s = stats.mairie s"
| "pick CChateau s = stats.chateau s"

definition counterPlus :: "counter \<Rightarrow> counter \<Rightarrow> counter" where
  "counterPlus a b =
     \<lparr> accepted = accepted a + accepted b, refused = refused a + refused b,
       total = total a + total b \<rparr>"

text \<open>The three counters of the dashboard's table.\<close>

definition tallies :: "stats \<Rightarrow> counter \<times> counter \<times> counter" where
  "tallies s = (complete s, stats.mairie s, stats.chateau s)"

text \<open>
  The bound under which every addition of head counts is exact, in whatever order: the
  magnitudes of the head counts that are added sum to at most \<open>2^53\<close>.
\<close>

definition exactRange :: "InvitationData list \<Rightarrow> bool" where
  "exactRange invitationList = (sum_list (map abs (headcounts invitationList)) \<le> 2 ^ 53)"

text \<open>An invitation on which the regime block throws.\<close>

definition regimeInherited :: "InvitationData \<Rightarrow> bool" where
  "regimeInherited i =
     (case Invitation.regime i of
        None \<Rightarrow> False
      | Some r \<Rightarrow> r \<noteq> [] \<and> trim r \<noteq> [] \<and> r \<in> set objectPrototypeKeys)"

section \<open>Sample data\<close>

definition alice :: Invite where
  "alice = \<lparr> Invite.id = 1, nom = Some ''Alice'', mairie = Some True, cocktail = Some False,
             chateau = None, brunch = None, fk_invitation = ''inv-1'',
             autorisation_ia = Some True \<rparr>"

definition bob :: Invite where
  "bob = \<lparr> Invite.id = 2, nom = None, mairie = Some False, cocktail = Some False,
           chateau = Some True, brunch = Some False, fk_invitation = ''inv-2'',
           autorisation_ia = Some False \<rparr>"

definition carol :: Invite where
  "carol = \<lparr> Invite.id = 3, nom = Some ''Carol'', mairie = None, cocktail = None,
             chateau = Some False, brunch = None, fk_invitation = ''inv-3'',
             autorisation_ia = None \<rparr>"

definition martin :: Invitation where
  "martin = \<lparr> Invitation.id = ''inv-1'', nom = Some ''Martin'', type = Some ''partial-mairie'',
              regime = None, allergie = None, hebergement = Some False,
              herbergement_nombre = None, link_music = None, confirmed_at = None \<rparr>"

definition durand :: Invitation where
  "durand = \<lparr> Invitation.id = ''inv-2'', nom = Some ''Durand'', type = Some ''full'',
              regime = Some ''vegan'', allergie = None, hebergement = Some True,
              herbergement_nombre = None, link_music = None, confirmed_at = None \<rparr>"

definition withGuests :: "Invitation \<Rightarrow> Invite list \<Rightarrow> InvitationData" where
  "withGuests i gs = Invitation.extend i \<lparr> url = None, invites = gs \<rparr>"

definition snapshot :: "InvitationData list" where
  "snapshot =
     [withGuests martin [alice],
      withGuests (durand\<lparr> herbergement_nombre := Some 3 \<rparr>) [bob, carol],
      withGuests (durand\<lparr> Invitation.id := ''inv-3'', Invitation.type := Some ''partial-chateau'',
                          herbergement_nombre := None \<rparr>) [carol]]"

definition row1 :: InviteRow where
  "row1 = \<lparr> InviteRow.id = ''r1'', nom = [''Alice''], type = PartialMairie,
            token_hash = ''h-abc'', mairie = None, cocktail = None, chateau = None,
            regime = None, allergie = None, hebergement = None, brunch = None,
            confirmed_at = None \<rparr>"

definition emptyBody :: json where
  "emptyBody = JObject [(''token'', JString ''abc'')]"

text \<open>A stand-in for the digest in the examples.\<close>

definition tagHash :: "string \<Rightarrow> string" where
  "tagHash t = ''h-'' @ t"

text \<open>Three invitations with accommodation accepted, for \<open>2^53\<close>, 1 and 1.\<close>

definition lodging :: "int \<Rightarrow> InvitationData" where
  "lodging n = withGuests (martin\<lparr> Invitation.hebergement := Some True,
                                   herbergement_nombre := Some n \<rparr>) []"

definition crowd :: "InvitationData list" where
  "crowd = [lodging 9007199254740992, lodging 1, lodging 1]"

text \<open>What \<^verbatim>\<open>calculateStats\<close> returns on the sample collection.\<close>

definition snapshotStats :: stats where
  "snapshotStats =
     \<lparr> complete = \<lparr> accepted = 1, refused = 1, total = 2 \<rparr>,
       mairie = \<lparr> accepted = 1, refused = 1, total = 3 \<rparr>,
       chateau = \<lparr> accepted = 1, refused = 2, total = 3 \<rparr>,
       accommodation = Number 3,
       regimes = [(''vegan'', \<lparr> count = 2, invitations = [''Durand'', ''Durand''] \<rparr>)] \<rparr>"

section \<open>Properties of the validation\<close>

text \<open>Each loop passes exactly when every guest has answered its questions.\<close>

lemma checkSamedi01_None:
  "checkSamedi01 gs = None \<longleftrightarrow> (\<forall>g\<in>set gs. Invite.mairie g \<noteq> None \<and> Invite.cocktail g \<noteq> None)"
  by (induction gs) auto

lemma checkWeekend_None:
  "checkWeekend gs = None \<longleftrightarrow> (\<forall>g\<in>set gs. Invite.chateau g \<noteq> None)"
  by (induction gs) auto

lemma checkIA_None:
  "checkIA gs = None \<longleftrightarrow> (\<forall>g\<in>set gs. autorisation_ia g \<noteq> None)"
  by (induction gs) auto

lemma unanswered_requiredByForm:
  "unanswered (requiredByForm ty) gs \<longleftrightarrow>
     (mairieApplies ty \<and> checkSamedi01 gs \<noteq> None) \<or> checkWeekend gs \<noteq> None \<or> checkIA gs \<noteq> None"
proof -
  have "unanswered (requiredByForm ty) gs \<longleftrightarrow>
      (\<exists>g\<in>set gs. (mairieApplies ty \<and> (Invite.mairie g = None \<or> Invite.cocktail g = None))
          \<or> Invite.chateau g = None \<or> autorisation_ia g = None)"
    by (simp add: unanswered_def requiredByForm_def list_ex_iff ex_disj_distrib conj_disj_distribR) blast
  also have "\<dots> \<longleftrightarrow> (mairieApplies ty \<and> checkSamedi01 gs \<noteq> None) \<or> checkWeekend gs \<noteq> None
      \<or> checkIA gs \<noteq> None"
    unfolding checkSamedi01_None checkWeekend_None checkIA_None by (cases "mairieApplies ty") auto
  finally show ?thesis .
qed

lemma headcount_test:
  "(Invitation.hebergement i = Some True \<and>
     (numFalsy (herbergement_nombre i) \<or>
      (case herbergement_nombre i of None \<Rightarrow> False | Some n \<Rightarrow> n \<le> 0))) = headcountInvalid i"
  by (auto simp: headcountInvalid_def numFalsy_def split: option.splits)

lemma validateForm_Some:
  "validateForm (Some i) gs =
     (case (if mairieApplies (Invitation.type i) then checkSamedi01 gs else None) of
        Some a \<Rightarrow> Inl a
      | None \<Rightarrow>
     (case checkWeekend gs of
        Some a \<Rightarrow> Inl a
      | None \<Rightarrow>
     (case checkIA gs of
        Some a \<Rightarrow> Inl a
      | None \<Rightarrow>
     (if Invitation.hebergement i = None then Inl AlertHebergement
      else if headcountInvalid i then Inl AlertHebergementNombre
      else Inr ()))))"
  by (auto simp: validateForm_def isMailleInvited_def mairieApplies_def headcountInvalid_def
        numFalsy_def split: option.splits)

text \<open>
  Claim C1, as the code has it. For every invitation and guest list, \<^verbatim>\<open>validateForm\<close>
  fails if and only if some guest has left unanswered a field the form requires of the
  invitation's type (town hall and cocktail for \<^verbatim>\<open>full\<close> and \<^verbatim>\<open>partial-mairie\<close> only; the
  chateau and the consent for every type, whatever the type is), or the accommodation flag
  is unanswered, or accommodation is accepted while the head count is absent or not
  positive; otherwise it returns true.
\<close>

theorem validateForm_fails_iff:
  "((\<exists>a. validateForm (Some i) gs = Inl a) \<longleftrightarrow>
      unanswered (requiredByForm (Invitation.type i)) gs \<or> Invitation.hebergement i = None \<or>
      headcountInvalid i) \<and>
   (validateForm (Some i) gs = Inr () \<longleftrightarrow>
      \<not> (unanswered (requiredByForm (Invitation.type i)) gs \<or> Invitation.hebergement i = None \<or>
         headcountInvalid i))"
  unfolding validateForm_Some unanswered_requiredByForm
  by (auto split: option.splits)

text \<open>
  The claim as the specification words it, with the chateau required of \<^verbatim>\<open>full\<close> and
  \<^verbatim>\<open>partial-chateau\<close> only, fails: a \<^verbatim>\<open>partial-mairie\<close> invitation whose only guest has
  answered everything but the chateau, with accommodation accepted for two, is rejected
  although no field of section 4.2's table is missing.
\<close>

theorem validate_spec_table_counterexample:
  "validateForm (Some (martin\<lparr> Invitation.hebergement := Some True, herbergement_nombre := Some 2 \<rparr>))
       [bob\<lparr> Invite.chateau := None \<rparr>] = Inl (AlertChateau linvite) \<and>
   \<not> (unanswered (requiredBySpec (Invitation.type
           (martin\<lparr> Invitation.hebergement := Some True, herbergement_nombre := Some 2 \<rparr>)))
         [bob\<lparr> Invite.chateau := None \<rparr>] \<or>
      Invitation.hebergement (martin\<lparr> Invitation.hebergement := Some True, herbergement_nombre := Some 2 \<rparr>) = None \<or>
      headcountInvalid (martin\<lparr> Invitation.hebergement := Some True, herbergement_nombre := Some 2 \<rparr>))"
  by (simp add: validateForm_Some martin_def bob_def mairieApplies_def chateauApplies_def
      unanswered_def requiredBySpec_def headcountInvalid_def strOr_def)

text \<open>Both sides of C1 at sample data: a rejected form and an accepted one.\<close>

theorem validate_fails_iff_witness:
  "(\<exists>a. validateForm (Some martin) [alice] = Inl a) \<and>
   unanswered (requiredByForm (Invitation.type martin)) [alice] \<and>
   validateForm (Some martin) [alice\<lparr> Invite.chateau := Some False \<rparr>] = Inr () \<and>
   \<not> unanswered (requiredByForm (Invitation.type martin)) [alice\<lparr> Invite.chateau := Some False \<rparr>]"
  using validateForm_fails_iff [of martin "[alice]"]
    validateForm_fails_iff [of martin "[alice\<lparr> Invite.chateau := Some False \<rparr>]"]
  by (simp add: martin_def alice_def mairieApplies_def unanswered_def requiredByForm_def
      headcountInvalid_def)

text \<open>
  Claim C2, as the code has it. For a \<^verbatim>\<open>partial-mairie\<close> invitation with one guest who
  attends the town hall and declines the cocktail, has answered the consent question, and
  with the accommodation answered (and a valid head count when accepted),
  \<^verbatim>\<open>validateForm\<close> returns true when the guest's chateau field is answered and fails with
  the chateau alert when it is not. The brunch field is never looked at.
\<close>

theorem partial_mairie_scenario:
  assumes "Invitation.type i = Some ''partial-mairie''"
    and "Invite.mairie g = Some True" and "Invite.cocktail g = Some False"
    and "autorisation_ia g \<noteq> None"
    and "Invitation.hebergement i \<noteq> None" and "\<not> headcountInvalid i"
  shows "validateForm (Some i) [g] =
     (if Invite.chateau g = None then Inl (AlertChateau (strOr (Invite.nom g) linvite))
      else Inr ())"
  using assms by (auto simp: validateForm_Some mairieApplies_def)

text \<open>The scenario of the specification itself is rejected: the chateau answer is missing.\<close>

theorem partial_mairie_scenario_counterexample:
  "Invitation.type martin = Some ''partial-mairie'' \<and> Invite.mairie alice = Some True \<and>
   Invite.cocktail alice = Some False \<and> Invite.chateau alice = None \<and> Invite.brunch alice = None \<and>
   autorisation_ia alice = Some True \<and> Invitation.hebergement martin = Some False \<and>
   validateForm (Some martin) [alice] = Inl (AlertChateau ''Alice'')"
  by (simp add: validateForm_Some martin_def alice_def mairieApplies_def headcountInvalid_def
      strOr_def)

text \<open>C2 at sample data: the same guest, the chateau answered, brunch untouched.\<close>

theorem partial_mairie_scenario_witness:
  "validateForm (Some martin) [alice\<lparr> Invite.chateau := Some True \<rparr>] = Inr () \<and>
   Invite.brunch (alice\<lparr> Invite.chateau := Some True \<rparr>) = None"
  using partial_mairie_scenario [of martin "alice\<lparr> Invite.chateau := Some True \<rparr>"]
  by (simp add: martin_def alice_def headcountInvalid_def)

text \<open>
  Claim C6, as the code has it. For every state in which every guest has answered the
  fields the form requires (town hall and cocktail for \<^verbatim>\<open>full\<close> and \<^verbatim>\<open>partial-mairie\<close>,
  chateau and consent for every type) and the accommodation flag is true: if the head count
  is null or not positive, \<^verbatim>\<open>validateForm\<close> fails with the head-count alert; and for the
  same state with the head count set to 2 it returns true.
\<close>

theorem headcount_check:
  assumes "\<not> unanswered (requiredByForm (Invitation.type i)) gs"
    and "Invitation.hebergement i = Some True"
  shows "((case herbergement_nombre i of None \<Rightarrow> True | Some n \<Rightarrow> n \<le> 0) \<longrightarrow>
            validateForm (Some i) gs = Inl AlertHebergementNombre) \<and>
         validateForm (Some (i\<lparr> herbergement_nombre := Some 2 \<rparr>)) gs = Inr ()"
  using assms unfolding validateForm_Some unanswered_requiredByForm
  by (auto simp: headcountInvalid_def split: option.splits)

text \<open>
  With the required fields of section 4.2's table the claim fails: for a \<^verbatim>\<open>partial-mairie\<close>
  guest without a chateau answer the alert is the chateau's, and a head count of 2 does not
  make the form pass.
\<close>

theorem headcount_check_counterexample:
  "\<not> unanswered (requiredBySpec (Invitation.type (martin\<lparr> Invitation.hebergement := Some True \<rparr>))) [alice] \<and>
   Invitation.hebergement (martin\<lparr> Invitation.hebergement := Some True \<rparr>) = Some True \<and>
   herbergement_nombre (martin\<lparr> Invitation.hebergement := Some True \<rparr>) = None \<and>
   validateForm (Some (martin\<lparr> Invitation.hebergement := Some True \<rparr>)) [alice] \<noteq> Inl AlertHebergementNombre \<and>
   validateForm (Some (martin\<lparr> Invitation.hebergement := Some True, herbergement_nombre := Some 2 \<rparr>)) [alice]
     \<noteq> Inr ()"
  by (simp add: validateForm_Some martin_def alice_def mairieApplies_def chateauApplies_def
      unanswered_def requiredBySpec_def headcountInvalid_def strOr_def)

text \<open>C6 at sample data: a \<^verbatim>\<open>full\<close> invitation, accommodation accepted, no head count.\<close>

theorem headcount_check_witness:
  "validateForm (Some durand) [bob] = Inl AlertHebergementNombre \<and>
   validateForm (Some (durand\<lparr> herbergement_nombre := Some 2 \<rparr>)) [bob] = Inr ()"
  using headcount_check [of durand "[bob]"]
  by (simp add: durand_def bob_def mairieApplies_def unanswered_def requiredByForm_def)

section \<open>Properties of the aggregation\<close>

subsection \<open>What the loops count\<close>

lemma numOr0_eq: "numOr0 n = (case n of None \<Rightarrow> 0 | Some v \<Rightarrow> v)"
  by (simp add: numOr0_def split: option.splits)

lemma pick_countInvite:
  "pick c (countInvite ty s g) =
     (if applicable c ty then bump (relevant c g) (pick c s) else pick c s)"
  by (cases c) (simp_all add: countInvite_def Let_def)

lemma accommodation_countInvite: "accommodation (countInvite ty s g) = accommodation s"
  by (simp add: countInvite_def Let_def)

lemma regimes_countInvite: "regimes (countInvite ty s g) = regimes s"
  by (simp add: countInvite_def Let_def)

lemma bump_counterPlus:
  "bump a c = counterPlus c
     \<lparr> accepted = (if a = Some True then 1 else 0),
       refused = (if a = Some False then 1 else 0), total = 1 \<rparr>"
  by (simp add: bump_def counterPlus_def Let_def)

lemma counterPlus_assoc: "counterPlus (counterPlus a b) c = counterPlus a (counterPlus b c)"
  by (simp add: counterPlus_def)

lemma tally_Nil: "counterPlus c (tally k []) = c"
  by (simp add: tally_def counterPlus_def)

lemma tally_Cons:
  "tally k ((ty, g) # ps) =
     counterPlus (if applicable k ty then
         \<lparr> accepted = (if relevant k g = Some True then 1 else 0),
           refused = (if relevant k g = Some False then 1 else 0), total = 1 \<rparr>
       else \<lparr> accepted = 0, refused = 0, total = 0 \<rparr>) (tally k ps)"
  by (simp add: tally_def counterPlus_def)

lemma tally_append: "tally k (ps @ qs) = counterPlus (tally k ps) (tally k qs)"
  by (simp add: tally_def counterPlus_def)

lemma counterPlus_zero: "counterPlus c \<lparr> accepted = 0, refused = 0, total = 0 \<rparr> = c"
  by (simp add: counterPlus_def)

lemma counterPlus_zero_left: "counterPlus \<lparr> accepted = 0, refused = 0, total = 0 \<rparr> c = c"
  by (simp add: counterPlus_def)

lemma pick_guests:
  "pick k (foldl (countInvite ty) s gs) = counterPlus (pick k s) (tally k (map (Pair ty) gs))"
proof (induction gs arbitrary: s)
  case Nil
  show ?case by (simp add: tally_Nil)
next
  case (Cons g gs)
  show ?case
    by (simp add: Cons.IH pick_countInvite bump_counterPlus tally_Cons counterPlus_assoc
        counterPlus_zero counterPlus_zero_left)
qed

lemma accommodation_guests: "accommodation (foldl (countInvite ty) s gs) = accommodation s"
  by (induction gs arbitrary: s) (simp_all add: accommodation_countInvite)

lemma regimes_guests: "regimes (foldl (countInvite ty) s gs) = regimes s"
  by (induction gs arbitrary: s) (simp_all add: regimes_countInvite)

lemma pick_countAccommodation: "pick k (countAccommodation s i) = pick k s"
  by (cases k) (simp_all add: countAccommodation_def)

lemma regimes_countAccommodation: "regimes (countAccommodation s i) = regimes s"
  by (simp add: countAccommodation_def)

lemma collectRegime_keeps:
  "collectRegime s i = Inr s' \<Longrightarrow> pick k s' = pick k s \<and> accommodation s' = accommodation s"
  by (cases k) (auto simp: collectRegime_def split: option.splits if_splits)

lemma stepInvitation_counts:
  assumes "stepInvitation s i = Inr s'"
  shows "pick k s' = counterPlus (pick k s) (tally k (map (Pair (Invitation.type i)) (invites i)))"
proof -
  let ?t = "countAccommodation (foldl (countInvite (Invitation.type i)) s (invites i)) i"
  from assms have "collectRegime ?t i = Inr s'"
    by (simp add: stepInvitation_def)
  then have "pick k s' = pick k ?t \<and> accommodation s' = accommodation ?t"
    by (rule collectRegime_keeps)
  then show ?thesis
    by (simp add: pick_countAccommodation pick_guests)
qed

lemma guestsOf_Cons:
  "guestsOf (i # is) = map (Pair (Invitation.type i)) (invites i) @ guestsOf is"
  by (simp add: guestsOf_def)

lemma forEachInvitation_counts:
  "forEachInvitation s is = Inr s' \<Longrightarrow>
     pick k s' = counterPlus (pick k s) (tally k (guestsOf is))"
proof (induction "is" arbitrary: s)
  case Nil
  then show ?case by (simp add: guestsOf_def tally_Nil)
next
  case (Cons i "is")
  from Cons.prems obtain s1 where s1: "stepInvitation s i = Inr s1"
    and rest: "forEachInvitation s1 is = Inr s'"
    by (auto split: sum.splits)
  show ?case
    using Cons.IH [OF rest] stepInvitation_counts [OF s1, of k]
    by (simp add: guestsOf_Cons tally_append counterPlus_assoc)
qed

lemma counterPlus_stats0: "counterPlus (pick k stats0) c = c"
  by (cases k) (simp_all add: stats0_def counterPlus_def)

lemma calculateStats_counts:
  assumes "calculateStats is = Inr st"
  shows "pick k st = tally k (guestsOf is)"
proof -
  from assms have "forEachInvitation stats0 is = Inr st"
    by (simp add: calculateStats_def)
  from forEachInvitation_counts [OF this, of k] show ?thesis
    by (simp add: counterPlus_stats0)
qed

subsection \<open>What the loops add\<close>

text \<open>
  An integer of magnitude at most \<open>2^53\<close> is a double, so a sum that stays in that range
  is not rounded; and it stays there, in any order of the additions, when the magnitudes
  of the terms sum to at most \<open>2^53\<close>.
\<close>

lemma roundDouble_exact: "\<bar>x\<bar> \<le> 2 ^ 53 \<Longrightarrow> roundDouble x = Number x"
  by (simp add: roundDouble_def)

lemma accommodation_countAccommodation:
  "accommodation (countAccommodation s i) =
     (if Invitation.hebergement i = Some True
      then numAdd (accommodation s) (Number (numOr0 (herbergement_nombre i)))
      else accommodation s)"
  by (simp add: countAccommodation_def)

lemma stepInvitation_accommodation:
  assumes "stepInvitation s i = Inr s'"
  shows "accommodation s' =
     (if Invitation.hebergement i = Some True
      then numAdd (accommodation s) (Number (numOr0 (herbergement_nombre i)))
      else accommodation s)"
proof -
  let ?t = "countAccommodation (foldl (countInvite (Invitation.type i)) s (invites i)) i"
  from assms have "collectRegime ?t i = Inr s'"
    by (simp add: stepInvitation_def)
  then have "pick Complete s' = pick Complete ?t \<and> accommodation s' = accommodation ?t"
    by (rule collectRegime_keeps)
  then show ?thesis
    by (simp add: accommodation_countAccommodation accommodation_guests)
qed

lemma headcounts_Cons:
  "headcounts (i # is) =
     (if Invitation.hebergement i = Some True then [numOr0 (herbergement_nombre i)] else []) @
     headcounts is"
  by (simp add: headcounts_def numOr0_eq)

lemma sum_abs_nonneg: "0 \<le> sum_list (map abs (xs :: int list))"
  by (induction xs) simp_all

lemma forEachInvitation_accommodation:
  "forEachInvitation s is = Inr s' \<Longrightarrow> accommodation s = Number a \<Longrightarrow>
     \<bar>a\<bar> + sum_list (map abs (headcounts is)) \<le> 2 ^ 53 \<Longrightarrow>
     accommodation s' = Number (a + sum_list (headcounts is))"
proof (induction "is" arbitrary: s a)
  case Nil
  then show ?case by (simp add: headcounts_def)
next
  case (Cons i "is")
  from Cons.prems(1) obtain s1 where s1: "stepInvitation s i = Inr s1"
    and rest: "forEachInvitation s1 is = Inr s'"
    by (auto split: sum.splits)
  note tail = sum_abs_nonneg [of "headcounts is"]
  show ?case
  proof (cases "Invitation.hebergement i = Some True")
    case True
    let ?h = "numOr0 (herbergement_nombre i)"
    from Cons.prems(3) True have bound: "\<bar>a\<bar> + \<bar>?h\<bar> + sum_list (map abs (headcounts is)) \<le> 2 ^ 53"
      by (simp add: headcounts_Cons)
    with tail have "\<bar>a + ?h\<bar> \<le> 2 ^ 53" by linarith
    then have "accommodation s1 = Number (a + ?h)"
      using stepInvitation_accommodation [OF s1] True Cons.prems(2)
      by (simp add: roundDouble_exact)
    moreover from bound have "\<bar>a + ?h\<bar> + sum_list (map abs (headcounts is)) \<le> 2 ^ 53"
      by linarith
    ultimately have "accommodation s' = Number (a + ?h + sum_list (headcounts is))"
      by (rule Cons.IH [OF rest])
    with True show ?thesis by (simp add: headcounts_Cons add.assoc)
  next
    case False
    with stepInvitation_accommodation [OF s1] Cons.prems(2)
    have "accommodation s1 = Number a" by simp
    moreover from Cons.prems(3) False
    have "\<bar>a\<bar> + sum_list (map abs (headcounts is)) \<le> 2 ^ 53"
      by (simp add: headcounts_Cons)
    ultimately have "accommodation s' = Number (a + sum_list (headcounts is))"
      by (rule Cons.IH [OF rest])
    with False show ?thesis by (simp add: headcounts_Cons)
  qed
qed

lemma calculateStats_accommodation:
  assumes "calculateStats is = Inr st" and "exactRange is"
  shows "accommodation st = Number (sum_list (headcounts is))"
proof -
  from assms(1) have "forEachInvitation stats0 is = Inr st"
    by (simp add: calculateStats_def)
  moreover have "accommodation stats0 = Number 0"
    by (simp add: stats0_def)
  moreover from assms(2) have "\<bar>0::int\<bar> + sum_list (map abs (headcounts is)) \<le> 2 ^ 53"
    by (simp add: exactRange_def)
  ultimately have "accommodation st = Number (0 + sum_list (headcounts is))"
    by (rule forEachInvitation_accommodation)
  then show ?thesis by simp
qed

subsection \<open>When the regime block throws\<close>

text \<open>
  The own keys of \<^verbatim>\<open>stats.regimes\<close> never include an inherited name, so
  \<^verbatim>\<open>calculateStats\<close> throws exactly when some invitation's regime, not blank, is the name
  of a member of \<^verbatim>\<open>Object.prototype\<close>; on every other collection it returns its statistics.
\<close>

lemma error_TypeError: "(e::error) = TypeError"
  by (cases e) simp

lemma collectRegime_throws:
  assumes "\<forall>k\<in>set objectPrototypeKeys. map_of (regimes s) k = None"
  shows "collectRegime s i = Inl TypeError \<longleftrightarrow> regimeInherited i"
  using assms
  by (auto simp: collectRegime_def regimeInherited_def split: option.splits)

lemma collectRegime_own_keys:
  assumes "\<forall>k\<in>set objectPrototypeKeys. map_of (regimes s) k = None"
    and "collectRegime s i = Inr s'"
  shows "\<forall>k\<in>set objectPrototypeKeys. map_of (regimes s') k = None"
proof
  fix k assume k: "k \<in> set objectPrototypeKeys"
  with assms(1) have none: "map_of (regimes s) k = None" by simp
  have upd: "map_of (AList.update r v (regimes s)) k = None"
    if "map_of (regimes s) r = Some e" for r v e
  proof -
    from that none have "r \<noteq> k" by auto
    with none show ?thesis by (simp add: AList.update_conv')
  qed
  have app: "map_of (regimes s @ [(r, v)]) k = None" if "r \<notin> set objectPrototypeKeys" for r v
    using that k none by (auto simp: map_add_def)
  from assms(2) none k show "map_of (regimes s') k = None"
    by (auto simp: collectRegime_def upd app split: option.splits if_splits)
qed

lemma stepInvitation_throws:
  assumes "\<forall>k\<in>set objectPrototypeKeys. map_of (regimes s) k = None"
  shows "stepInvitation s i = Inl TypeError \<longleftrightarrow> regimeInherited i"
  unfolding stepInvitation_def
  by (rule collectRegime_throws) (simp add: regimes_countAccommodation regimes_guests assms)

lemma stepInvitation_own_keys:
  assumes "\<forall>k\<in>set objectPrototypeKeys. map_of (regimes s) k = None"
    and "stepInvitation s i = Inr s'"
  shows "\<forall>k\<in>set objectPrototypeKeys. map_of (regimes s') k = None"
  using assms(2) unfolding stepInvitation_def
  by (rule collectRegime_own_keys [rotated])
     (simp add: regimes_countAccommodation regimes_guests assms(1))

lemma forEachInvitation_throws:
  "\<forall>k\<in>set objectPrototypeKeys. map_of (regimes s) k = None \<Longrightarrow>
     forEachInvitation s is = Inl TypeError \<longleftrightarrow> (\<exists>i\<in>set is. regimeInherited i)"
proof (induction "is" arbitrary: s)
  case Nil
  show ?case by simp
next
  case (Cons i "is")
  show ?case
  proof (cases "stepInvitation s i")
    case (Inl e)
    with stepInvitation_throws [OF Cons.prems, of i] show ?thesis
      by (simp add: error_TypeError [of e])
  next
    case (Inr s1)
    with stepInvitation_throws [OF Cons.prems, of i] have "\<not> regimeInherited i"
      by simp
    with Inr Cons.IH [OF stepInvitation_own_keys [OF Cons.prems Inr]] show ?thesis
      by simp
  qed
qed

lemma calculateStats_throws:
  "calculateStats is = Inl TypeError \<longleftrightarrow> (\<exists>i\<in>set is. regimeInherited i)"
  unfolding calculateStats_def
  by (rule forEachInvitation_throws) (simp add: stats0_def)

lemma calculateStats_returns:
  "(\<exists>st. calculateStats is = Inr st) \<longleftrightarrow> (\<forall>i\<in>set is. \<not> regimeInherited i)"
proof -
  have "(\<exists>st. calculateStats is = Inr st) \<longleftrightarrow> calculateStats is \<noteq> Inl TypeError"
    by (cases "calculateStats is") (simp_all add: error_TypeError)
  then show ?thesis by (simp add: calculateStats_throws)
qed

lemma calculateStats_constructor:
  "calculateStats [withGuests (durand\<lparr> Invitation.regime := Some ''constructor'' \<rparr>) [bob]] = Inl TypeError"
  by (simp add: calculateStats_throws regimeInherited_def withGuests_def durand_def
      Invitation.extend_def trim_def isWhiteSpace_def objectPrototypeKeys_def)

subsection \<open>Counters\<close>

text \<open>
  Claim C3. For every collection of invitations with nested guests, the three counters
  that \<^verbatim>\<open>calculateStats\<close> returns are the tallies of the specification: the total of a
  category counts each guest whose invitation's type is applicable to it once (complete:
  \<^verbatim>\<open>full\<close> only, chateau answer; mairie: \<^verbatim>\<open>full\<close> or \<^verbatim>\<open>partial-mairie\<close>, mairie answer; chateau:
  \<^verbatim>\<open>full\<close> or \<^verbatim>\<open>partial-chateau\<close>, chateau answer), accepted counts those whose answer is
  exactly true, refused those whose answer is exactly false, and an unanswered guest is in
  the total alone.
\<close>

theorem counters_tally:
  assumes "calculateStats is = Inr st"
  shows "complete st = tally Complete (guestsOf is) \<and>
         stats.mairie st = tally CMairie (guestsOf is) \<and>
         stats.chateau st = tally CChateau (guestsOf is)"
  using calculateStats_counts [OF assms, of Complete] calculateStats_counts [OF assms, of CMairie]
    calculateStats_counts [OF assms, of CChateau]
  by simp

text \<open>C3 on the sample collection.\<close>

theorem counters_tally_witness:
  "calculateStats snapshot = Inr snapshotStats \<and>
   complete snapshotStats = tally Complete (guestsOf snapshot) \<and>
   stats.mairie snapshotStats = tally CMairie (guestsOf snapshot) \<and>
   stats.chateau snapshotStats = tally CChateau (guestsOf snapshot) \<and>
   tally CMairie (guestsOf snapshot) = \<lparr> accepted = 1, refused = 1, total = 3 \<rparr>"
proof -
  have h: "calculateStats snapshot = Inr snapshotStats" by code_simp
  have "tally CMairie (guestsOf snapshot) = \<lparr> accepted = 1, refused = 1, total = 3 \<rparr>"
    by code_simp
  with h counters_tally [OF h] show ?thesis by simp
qed

subsection \<open>Order of the invitations\<close>

lemma length_filter_mset: "length (filter P xs) = size (filter_mset P (mset xs))"
  by (metis mset_filter size_mset)

lemma tally_mset:
  assumes "mset ps' = mset ps"
  shows "tally k ps' = tally k ps"
  by (simp add: tally_def length_filter_mset assms)

lemma guestsOf_mset:
  assumes "mset is' = mset is"
  shows "mset (guestsOf is') = mset (guestsOf is)"
proof -
  have "mset (guestsOf js) =
      sum_mset (image_mset (\<lambda>i. mset (map (Pair (Invitation.type i)) (invites i))) (mset js))" for js
    unfolding guestsOf_def mset_concat
    by (simp only: map_map sum_mset_sum_list [symmetric] mset_map comp_def)
  then show ?thesis by (simp add: assms)
qed

lemma headcounts_mset:
  assumes "mset is' = mset is"
  shows "sum_list (headcounts is') = sum_list (headcounts is)"
    and "exactRange is' = exactRange is"
proof -
  have same: "mset (headcounts is') = mset (headcounts is)"
    by (simp add: headcounts_def assms)
  then show "sum_list (headcounts is') = sum_list (headcounts is)"
    by (metis sum_mset_sum_list)
  from same have "mset (map abs (headcounts is')) = mset (map abs (headcounts is))"
    by simp
  then have "sum_list (map abs (headcounts is')) = sum_list (map abs (headcounts is))"
    by (metis sum_mset_sum_list)
  then show "exactRange is' = exactRange is"
    by (simp add: exactRange_def)
qed

text \<open>
  Claim C4, as the code has it. For every collection of invitations and every permutation
  of it, \<^verbatim>\<open>calculateStats\<close> on the permuted collection yields the same complete, mairie
  and chateau counters (accepted, refused and total) as on the original order, and throws
  on the one exactly when it throws on the other; it yields the same accommodation total
  when the magnitudes of the head counts of the invitations with accommodation accepted
  sum to at most \<open>2^53\<close>, the range in which the additions of the code are exact.
\<close>

theorem counters_permutation:
  assumes "mset is' = mset is"
  shows "map_sum Fun.id tallies (calculateStats is') = map_sum Fun.id tallies (calculateStats is) \<and>
         (exactRange is \<longrightarrow>
            map_sum Fun.id accommodation (calculateStats is') =
            map_sum Fun.id accommodation (calculateStats is))"
proof (cases "\<exists>i\<in>set is. regimeInherited i")
  case True
  moreover from assms have "set is' = set is" by (rule mset_eq_setD)
  ultimately have "calculateStats is = Inl TypeError" and "calculateStats is' = Inl TypeError"
    by (simp_all add: calculateStats_throws)
  then show ?thesis by simp
next
  case False
  moreover from assms have "set is' = set is" by (rule mset_eq_setD)
  ultimately obtain st st' where st: "calculateStats is = Inr st"
    and st': "calculateStats is' = Inr st'"
    using calculateStats_returns [of "is"] calculateStats_returns [of is'] by auto
  have same: "tally k (guestsOf is') = tally k (guestsOf is)" for k
    by (rule tally_mset) (rule guestsOf_mset [OF assms])
  have "tallies st' = tallies st"
    using calculateStats_counts [OF st, of Complete] calculateStats_counts [OF st', of Complete]
      calculateStats_counts [OF st, of CMairie] calculateStats_counts [OF st', of CMairie]
      calculateStats_counts [OF st, of CChateau] calculateStats_counts [OF st', of CChateau]
    by (simp add: tallies_def same)
  moreover have "accommodation st' = accommodation st" if "exactRange is"
  proof -
    from that have "exactRange is'" by (simp add: headcounts_mset(2) [OF assms])
    from calculateStats_accommodation [OF st that] calculateStats_accommodation [OF st' this]
    show ?thesis by (simp add: headcounts_mset(1) [OF assms])
  qed
  ultimately show ?thesis using st st' by simp
qed

text \<open>
  The claim as the specification words it fails for the accommodation total: head counts
  of \<open>2^53\<close>, 1 and 1 total \<open>2^53\<close> in that order, each 1 being lost to rounding, and
  \<open>2^53 + 2\<close> in the reverse order.
\<close>

theorem counters_permutation_counterexample:
  "mset (rev crowd) = mset crowd \<and>
   map_sum Fun.id accommodation (calculateStats crowd) = Inr (Number 9007199254740992) \<and>
   map_sum Fun.id accommodation (calculateStats (rev crowd)) = Inr (Number 9007199254740994)"
proof -
  have "map_sum Fun.id accommodation (calculateStats crowd) = Inr (Number 9007199254740992)"
    by code_simp
  moreover
  have "map_sum Fun.id accommodation (calculateStats (rev crowd)) = Inr (Number 9007199254740994)"
    by code_simp
  ultimately show ?thesis by simp
qed

text \<open>C4 on the sample collection, reversed.\<close>

theorem counters_permutation_witness:
  "mset (rev snapshot) = mset snapshot \<and> exactRange snapshot \<and>
   map_sum Fun.id tallies (calculateStats (rev snapshot)) = Inr (tallies snapshotStats) \<and>
   map_sum Fun.id accommodation (calculateStats (rev snapshot)) = Inr (Number 3)"
proof -
  have h: "mset (rev snapshot) = mset snapshot" by simp
  have r: "exactRange snapshot" by code_simp
  have "calculateStats snapshot = Inr snapshotStats" by code_simp
  with h r counters_permutation [OF h] show ?thesis by (simp add: snapshotStats_def)
qed

subsection \<open>Accommodation\<close>

text \<open>
  Claim C5, as the code has it. For every collection of invitations in which the
  magnitudes of the head counts of the invitations with accommodation accepted sum to at
  most \<open>2^53\<close>, the accommodation total that \<^verbatim>\<open>calculateStats\<close> returns is the sum of the
  head counts over exactly the invitations whose accommodation flag is true, a null head
  count counting as 0; invitations whose flag is false or unanswered contribute nothing.
  No head count makes it throw: when it throws, an invitation's regime is an inherited
  property name.
\<close>

theorem accommodation_total:
  assumes "exactRange is"
  shows "(case calculateStats is of
      Inr st \<Rightarrow> accommodation st = Number (sum_list (headcounts is))
    | Inl e \<Rightarrow> list_ex regimeInherited is)"
proof (cases "calculateStats is")
  case (Inl e)
  then have "calculateStats is = Inl TypeError"
    by (simp add: error_TypeError [of e])
  then have "\<exists>i\<in>set is. regimeInherited i"
    by (simp add: calculateStats_throws)
  with Inl show ?thesis by (simp add: list_ex_iff)
next
  case (Inr st)
  with calculateStats_accommodation [OF Inr assms] show ?thesis by simp
qed

text \<open>
  Without the bound the claim fails: for head counts of \<open>2^53\<close>, 1 and 1 the code's total
  is \<open>2^53\<close>, and their sum is \<open>2^53 + 2\<close>.
\<close>

theorem accommodation_total_counterexample:
  "map_sum Fun.id accommodation (calculateStats crowd) = Inr (Number 9007199254740992) \<and>
   sum_list (headcounts crowd) = 9007199254740994"
proof -
  have "map_sum Fun.id accommodation (calculateStats crowd) = Inr (Number 9007199254740992)"
    by code_simp
  moreover have "sum_list (headcounts crowd) = 9007199254740994"
    by code_simp
  ultimately show ?thesis by simp
qed

text \<open>C5 on the sample collection: head counts 3 and null.\<close>

theorem accommodation_total_witness:
  "exactRange snapshot \<and> calculateStats snapshot = Inr snapshotStats \<and>
   accommodation snapshotStats = Number (sum_list (headcounts snapshot)) \<and>
   headcounts snapshot = [3, 0]"
proof -
  have r: "exactRange snapshot" by code_simp
  have h: "calculateStats snapshot = Inr snapshotStats" by code_simp
  have "headcounts snapshot = [3, 0]" by code_simp
  with r h accommodation_total [OF r] show ?thesis by simp
qed

subsection \<open>The two chateau categories\<close>

lemma length_filter_mono:
  "(\<And>x. P x \<Longrightarrow> Q x) \<Longrightarrow> length (filter P xs) \<le> length (filter Q xs)"
  by (induction xs) auto

lemma tally_complete_le:
  "accepted (tally Complete ps) \<le> accepted (tally CChateau ps) \<and>
   refused (tally Complete ps) \<le> refused (tally CChateau ps) \<and>
   total (tally Complete ps) \<le> total (tally CChateau ps)"
  by (auto simp: tally_def intro!: length_filter_mono)

text \<open>
  Claim C7. For every collection of invitations with nested guests, each counter of the
  complete category that \<^verbatim>\<open>calculateStats\<close> returns is at most the corresponding counter
  of the chateau category.
\<close>

theorem complete_le_chateau:
  assumes "calculateStats is = Inr st"
  shows "accepted (complete st) \<le> accepted (stats.chateau st) \<and>
         refused (complete st) \<le> refused (stats.chateau st) \<and>
         total (complete st) \<le> total (stats.chateau st)"
  using calculateStats_counts [OF assms, of Complete] calculateStats_counts [OF assms, of CChateau]
    tally_complete_le [of "guestsOf is"]
  by simp

text \<open>C7 on the sample collection.\<close>

theorem complete_le_chateau_witness:
  "calculateStats snapshot = Inr snapshotStats \<and>
   accepted (complete snapshotStats) \<le> accepted (stats.chateau snapshotStats) \<and>
   refused (complete snapshotStats) \<le> refused (stats.chateau snapshotStats) \<and>
   total (complete snapshotStats) \<le> total (stats.chateau snapshotStats) \<and>
   refused (complete snapshotStats) < refused (stats.chateau snapshotStats)"
proof -
  have h: "calculateStats snapshot = Inr snapshotStats" by code_simp
  have "refused (complete snapshotStats) < refused (stats.chateau snapshotStats)"
    by (simp add: snapshotStats_def)
  with h complete_le_chateau [OF h] show ?thesis by simp
qed

subsection \<open>Detail queries\<close>

lemma length_pushPerson:
  "length (foldl (pushPerson ty sts i) people gs) =
     length people + length (filter (includePerson ty sts (Invitation.type i)) gs)"
  by (induction gs arbitrary: people) (simp_all add: pushPerson_def)

lemma length_people:
  "length (foldl (\<lambda>people i. foldl (pushPerson ty sts i) people (invites i)) people is) =
     length people + length (filter (\<lambda>p. includePerson ty sts (fst p) (snd p)) (guestsOf is))"
  by (induction "is" arbitrary: people)
     (simp_all add: guestsOf_def length_pushPerson filter_map comp_def)

lemma length_getStatsDetails:
  "length (getStatsDetails is ty sts) =
     length (filter (\<lambda>p. includePerson ty sts (fst p) (snd p)) (guestsOf is))"
  by (simp add: getStatsDetails_def length_people)

lemma includePerson_iff:
  "includePerson TMairie Accepted ty g \<longleftrightarrow> applicable CMairie ty \<and> relevant CMairie g = Some True"
  "includePerson TMairie Refused ty g \<longleftrightarrow> applicable CMairie ty \<and> relevant CMairie g = Some False"
  "includePerson TChateau Accepted ty g \<longleftrightarrow> applicable CChateau ty \<and> relevant CChateau g = Some True"
  "includePerson TChateau Refused ty g \<longleftrightarrow> applicable CChateau ty \<and> relevant CChateau g = Some False"
  by (auto simp: includePerson_def)

lemma nombre_pushAccommodation:
  "map nombre (foldl pushAccommodation acc is) = map nombre acc @ headcounts is"
  by (induction "is" arbitrary: acc) (simp_all add: pushAccommodation_def headcounts_def numOr0_eq)

lemma nombre_getAccommodationDetails:
  "map nombre (getAccommodationDetails is) = headcounts is"
  by (simp add: getAccommodationDetails_def nombre_pushAccommodation)

text \<open>
  Claim C8, as the code has it. For every collection of invitations with nested guests,
  for each category in mairie and chateau and each status in accepted and refused, the
  list that \<^verbatim>\<open>getStatsDetails\<close> returns is as long as the corresponding counter that
  \<^verbatim>\<open>calculateStats\<close> returns; \<^verbatim>\<open>getAccommodationDetails\<close> lists the head counts of the
  invitations with accommodation accepted (null listed as 0); and these sum to the
  accommodation total when their magnitudes sum to at most \<open>2^53\<close>.
\<close>

theorem details_match_counters:
  assumes "calculateStats is = Inr st"
  shows "length (getStatsDetails is TMairie Accepted) = accepted (stats.mairie st) \<and>
         length (getStatsDetails is TMairie Refused) = refused (stats.mairie st) \<and>
         length (getStatsDetails is TChateau Accepted) = accepted (stats.chateau st) \<and>
         length (getStatsDetails is TChateau Refused) = refused (stats.chateau st) \<and>
         map nombre (getAccommodationDetails is) = headcounts is \<and>
         (exactRange is \<longrightarrow>
            Number (sum_list (map nombre (getAccommodationDetails is))) = accommodation st)"
  using calculateStats_counts [OF assms, of CMairie] calculateStats_counts [OF assms, of CChateau]
    calculateStats_accommodation [OF assms]
  by (simp add: length_getStatsDetails includePerson_iff tally_def nombre_getAccommodationDetails)

text \<open>
  Without the bound the last part fails: for head counts of \<open>2^53\<close>, 1 and 1 the listed
  head counts sum to \<open>2^53 + 2\<close>, and the total of \<^verbatim>\<open>calculateStats\<close> is \<open>2^53\<close>.
\<close>

theorem details_match_counters_counterexample:
  "sum_list (map nombre (getAccommodationDetails crowd)) = 9007199254740994 \<and>
   map_sum Fun.id accommodation (calculateStats crowd) = Inr (Number 9007199254740992)"
proof -
  have "sum_list (map nombre (getAccommodationDetails crowd)) = 9007199254740994"
    by code_simp
  moreover
  have "map_sum Fun.id accommodation (calculateStats crowd) = Inr (Number 9007199254740992)"
    by code_simp
  ultimately show ?thesis by simp
qed

text \<open>C8 on the sample collection.\<close>

theorem details_match_counters_witness:
  "calculateStats snapshot = Inr snapshotStats \<and> exactRange snapshot \<and>
   length (getStatsDetails snapshot TMairie Accepted) = 1 \<and>
   length (getStatsDetails snapshot TMairie Refused) = 1 \<and>
   length (getStatsDetails snapshot TChateau Accepted) = 1 \<and>
   length (getStatsDetails snapshot TChateau Refused) = 2 \<and>
   sum_list (map nombre (getAccommodationDetails snapshot)) = 3"
proof -
  have h: "calculateStats snapshot = Inr snapshotStats" by code_simp
  have r: "exactRange snapshot" by code_simp
  from details_match_counters [OF h] r show ?thesis
    by (auto simp: h snapshotStats_def)
qed

section \<open>Properties of the submission endpoint\<close>

lemma POST_token:
  assumes "member b ''token'' = Some (JString t)"
  shows "POST sha256hex now update (Json b) db =
     (case fst (update (valuesOf b now) (sha256hex t) db) of
        Some message \<Rightarrow> Inr \<lparr> status = 500, body = ErrorBody message \<rparr>
      | None \<Rightarrow> Inr \<lparr> status = 200, body = OkBody True \<rparr>,
      snd (update (valuesOf b now) (sha256hex t) db))"
proof -
  from assms have "b \<noteq> JNull" by auto
  with assms show ?thesis
    by (simp add: POST_def Let_def split: option.splits)
qed

text \<open>
  Claim C9, as the code has it. For every submission whose body is JSON and holds a
  string under \<^verbatim>\<open>token\<close>: when the store's update reports an error the endpoint answers
  with status 500 and a body holding the store's error message as it is; when the store
  reports none it answers with the body \<^verbatim>\<open>{ ok: true }\<close>. For such a submission there is no
  other outcome, and the store is left as the one update call leaves it.
\<close>

theorem POST_outcomes:
  assumes "member b ''token'' = Some (JString t)"
  shows "(fst (update (valuesOf b now) (sha256hex t) db) = Some message \<longrightarrow>
      POST sha256hex now update (Json b) db =
        (Inr \<lparr> status = 500, body = ErrorBody message \<rparr>,
         snd (update (valuesOf b now) (sha256hex t) db))) \<and>
   (fst (update (valuesOf b now) (sha256hex t) db) = None \<longrightarrow>
      POST sha256hex now update (Json b) db =
        (Inr \<lparr> status = 200, body = OkBody True \<rparr>,
         snd (update (valuesOf b now) (sha256hex t) db)))"
  by (simp add: POST_token [OF assms])

text \<open>
  For every submission the claim fails: a body without a token, or one that is not JSON,
  makes the handler throw before it calls the store, whether that store would report an
  error or not; the outcome is neither of the two responses.
\<close>

theorem POST_outcomes_counterexample:
  "POST tagHash ''2026-08-01T10:00:00.000Z'' (storeUpdate (Some ''connection refused''))
       (Json (JObject [])) [row1] = (Inl BodyTypeError, [row1]) \<and>
   POST tagHash ''2026-08-01T10:00:00.000Z'' (storeUpdate None)
       (Json (JObject [])) [row1] = (Inl BodyTypeError, [row1]) \<and>
   POST tagHash ''2026-08-01T10:00:00.000Z'' (storeUpdate None) NotJson [row1] =
     (Inl SyntaxError, [row1])"
  by (simp add: POST_def)

text \<open>C9 at a failing store and at a store that accepts the update.\<close>

theorem POST_outcomes_witness:
  "member emptyBody ''token'' = Some (JString ''abc'') \<and>
   POST tagHash ''2026-08-01T10:00:00.000Z'' (storeUpdate (Some ''connection refused''))
       (Json emptyBody) [row1] =
     (Inr \<lparr> status = 500, body = ErrorBody ''connection refused'' \<rparr>, [row1]) \<and>
   fst (POST tagHash ''2026-08-01T10:00:00.000Z'' (storeUpdate None) (Json emptyBody) [row1]) =
     Inr \<lparr> status = 200, body = OkBody True \<rparr>"
proof -
  have h: "member emptyBody ''token'' = Some (JString ''abc'')"
    by (simp add: emptyBody_def)
  from h POST_outcomes [OF h, of "storeUpdate (Some ''connection refused'')"
      "''2026-08-01T10:00:00.000Z''" tagHash "[row1]" "''connection refused''"]
    POST_outcomes [OF h, of "storeUpdate None"
      "''2026-08-01T10:00:00.000Z''" tagHash "[row1]" "''connection refused''"]
  show ?thesis by (simp add: storeUpdate_def)
qed

lemma confirmed_at_overwrite:
  "InviteRow.confirmed_at (overwrite v r) = Some (updateValues.confirmed_at v)"
  by (simp add: overwrite_def)

text \<open>
  Claim C10, as the code has it. The endpoint validates no answer and checks no existence:
  for every request body that is JSON and holds a string under \<^verbatim>\<open>token\<close>, whichever
  answer fields it omits and whether or not the token's digest matches a row, a store that
  reports no error yields the response \<^verbatim>\<open>{ ok: true }\<close>; the update it sends always sets
  \<^verbatim>\<open>confirmed_at\<close> to the current time, so that every row whose \<^verbatim>\<open>token_hash\<close> is the token's
  digest has it overwritten and every other row keeps its own; and when no row matches,
  the store is unchanged and the response is the same.
\<close>

theorem POST_no_checks:
  assumes "member b ''token'' = Some (JString t)"
  shows "fst (POST sha256hex now (storeUpdate None) (Json b) rows) =
           Inr \<lparr> status = 200, body = OkBody True \<rparr> \<and>
         updateValues.confirmed_at (valuesOf b now) = now \<and>
         map InviteRow.confirmed_at (snd (POST sha256hex now (storeUpdate None) (Json b) rows)) =
           map (\<lambda>r. if token_hash r = sha256hex t then Some now else InviteRow.confirmed_at r) rows \<and>
         ((\<forall>r\<in>set rows. token_hash r \<noteq> sha256hex t) \<longrightarrow>
            snd (POST sha256hex now (storeUpdate None) (Json b) rows) = rows)"
  by (simp add: POST_token [OF assms] storeUpdate_def confirmed_at_overwrite valuesOf_def
      map_idI cong: map_cong)

text \<open>
  For every request body the claim fails: a body that holds answers and no token makes the
  handler throw, although the store would report no error; no row is touched and the
  response is not \<^verbatim>\<open>{ ok: true }\<close>. So does a token that is a number.
\<close>

theorem POST_no_checks_counterexample:
  "POST tagHash ''2026'' (storeUpdate None) (Json (JObject [(''mairie'', JBool True)])) [row1] =
     (Inl BodyTypeError, [row1]) \<and>
   POST tagHash ''2026'' (storeUpdate None) (Json (JObject [(''token'', JNumber ''5'')])) [row1] =
     (Inl BodyTypeError, [row1])"
  by (simp add: POST_def)

text \<open>C10 at a body with a token alone that matches a row, and at a token that matches none.\<close>

theorem POST_no_checks_witness:
  "fst (POST tagHash ''2026'' (storeUpdate None) (Json emptyBody) [row1]) =
     Inr \<lparr> status = 200, body = OkBody True \<rparr> \<and>
   map InviteRow.confirmed_at (snd (POST tagHash ''2026'' (storeUpdate None) (Json emptyBody) [row1])) =
     [Some ''2026''] \<and>
   fst (POST tagHash ''2026'' (storeUpdate None) (Json (JObject [(''token'', JString ''nobody'')])) [row1]) =
     Inr \<lparr> status = 200, body = OkBody True \<rparr> \<and>
   snd (POST tagHash ''2026'' (storeUpdate None) (Json (JObject [(''token'', JString ''nobody'')])) [row1]) =
     [row1]"
proof -
  have h: "member emptyBody ''token'' = Some (JString ''abc'')"
    by (simp add: emptyBody_def)
  have k: "member (JObject [(''token'', JString ''nobody'')]) ''token'' = Some (JString ''nobody'')"
    by simp
  from POST_no_checks [OF h, of tagHash "''2026''" "[row1]"]
    POST_no_checks [OF k, of tagHash "''2026''" "[row1]"]
  show ?thesis by (simp add: tagHash_def row1_def)
qed

end
